theory Spec2Isabelle
  imports Complex_Main
begin

section \<open>The distributed DQN agent of \<^verbatim>\<open>rl_darts/algorithms/rainbow/agent_distributed.py\<close>\<close>

text \<open>
  The class \<^verbatim>\<open>DistributedDQN\<close> stores its configuration in the constructor and offers one
  method per process kind (\<^verbatim>\<open>replay\<close>, \<^verbatim>\<open>counter\<close>, \<^verbatim>\<open>learner\<close>, \<^verbatim>\<open>actor\<close>,
  \<^verbatim>\<open>evaluator\<close>) plus \<^verbatim>\<open>build\<close>, which wires the processes into a launchpad program.

  Conventions of the embedding:
  \<^item> Python \<^verbatim>\<open>int\<close> is \<^typ>\<open>int\<close>; Python \<^verbatim>\<open>float\<close> is idealised as \<^typ>\<open>real\<close> (no rounding,
    no NaN, no infinities);
  \<^item> an exception is the \<open>Inl\<close> branch of a sum;
  \<^item> a call of a collaborator (environment factory, network factory, acme, reverb) is an
    \<open>event\<close> in the trace a method returns next to its result; the collaborators
    themselves are assumed to return;
  \<^item> the objects handed to reverb, acme and launchpad are records and datatypes holding
    exactly the arguments the source passes.
\<close>

subsection \<open>Exceptions\<close>

datatype error = AssertionError | ValueError | ZeroDivisionError

subsection \<open>The configuration held by \<^verbatim>\<open>self\<close>\<close>

text \<open>
  One record serves both as the constructor's argument list (with
  \<open>'s = 'spec option\<close>, the parameter \<^verbatim>\<open>environment_spec\<close>) and as the attributes of the
  constructed object (with \<open>'s = 'spec\<close>, the attribute \<^verbatim>\<open>_env_spec\<close>). The opaque callables
  \<^verbatim>\<open>network_factory\<close> and \<^verbatim>\<open>evaluator_cls\<close> are not fields: their calls appear as events.
  \<^verbatim>\<open>samples_per_insert\<close> is \<open>None\<close> for Python's \<^verbatim>\<open>None\<close>.
\<close>

record ('env, 's) DistributedDQN =
  environment_factory :: "bool \<Rightarrow> 'env"
  num_actors :: int
  num_caches :: int
  env_spec :: 's
  batch_size :: int
  prefetch_size :: int
  target_update_period :: int
  samples_per_insert :: "real option"
  min_replay_size :: int
  max_replay_size :: int
  importance_sampling_exponent :: real
  priority_exponent :: real
  default_priority :: real
  n_step :: int
  learning_rate :: real
  evaluator_epsilon :: real
  discount :: real
  variable_update_period :: int
  max_actor_steps :: int
  num_evaluators :: int

subsection \<open>Collaborator calls\<close>

text \<open>A handle is what \<^verbatim>\<open>program.add_node\<close> returns: the position of the node in the program.\<close>

datatype handle = Handle nat

text \<open>A name built by an f-string with one interpolated integer, or a plain literal.\<close>

datatype label = Lit string | Fmt string int

text \<open>\<^verbatim>\<open>tf2_variable_utils.VariableClient(client, variables, update_period)\<close>.\<close>

record VariableClient =
  client :: handle
  update_period :: int

text \<open>
  An event is a call that has returned: the methods are sequential, so each call starts
  after the one before it has returned. \<open>UpdateAndWait c\<close> is \<^verbatim>\<open>c.update_and_wait()\<close>, which
  returns once the variables have arrived. The creation of an acting object (an actor,
  a loop) carries the variable client the acting policy reads its variables from.
  \<open>EnvironmentStep c\<close> is one action taken in the environment by a loop whose actor holds
  the client \<open>c\<close>; no method of the class takes one, a running loop does.
\<close>

datatype event =
    EnvironmentFactory bool
  | MakeEnvironmentSpec
  | NetworkFactory
  | CreateVariables
  | VariableClientInit VariableClient
  | UpdateAndWait VariableClient
  | NStepTransitionAdderInit
  | CounterInit label
  | AtariEpsilonScheduleInit real
  | FeedForwardActorWithEpsilonScheduleInit VariableClient
  | SequentialInit
  | FeedForwardActorInit VariableClient
  | MakeDefaultLogger string
  | EnvironmentLoopInit VariableClient
  | EvaluatorClsInit int VariableClient
  | EnvironmentStep VariableClient

subsection \<open>\<^verbatim>\<open>__init__\<close>\<close>

text \<open>
  The assertion comes first; then the environment spec is derived from a training
  environment when none was given; then the twenty attributes are stored.
  \<open>make_environment_spec\<close> stands for \<^verbatim>\<open>specs.make_environment_spec\<close>.
\<close>

definition init ::
  "('env \<Rightarrow> 'spec) \<Rightarrow> ('env, 'spec option) DistributedDQN
     \<Rightarrow> event list \<times> (error + ('env, 'spec) DistributedDQN)" where
  "init make_environment_spec args =
     (if \<not> num_caches args \<ge> 1 then ([], Inl AssertionError)
      else
        let (evs, environment_spec) =
              (case env_spec args of
                 None \<Rightarrow> ([EnvironmentFactory False, MakeEnvironmentSpec],
                           make_environment_spec (environment_factory args False))
               | Some sp \<Rightarrow> ([], sp))
        in (evs, Inr \<lparr>
              environment_factory = environment_factory args,
              num_actors = num_actors args,
              num_caches = num_caches args,
              env_spec = environment_spec,
              batch_size = batch_size args,
              prefetch_size = prefetch_size args,
              target_update_period = target_update_period args,
              samples_per_insert = samples_per_insert args,
              min_replay_size = min_replay_size args,
              max_replay_size = max_replay_size args,
              importance_sampling_exponent = importance_sampling_exponent args,
              priority_exponent = priority_exponent args,
              default_priority = default_priority args,
              n_step = n_step args,
              learning_rate = learning_rate args,
              evaluator_epsilon = evaluator_epsilon args,
              discount = discount args,
              variable_update_period = variable_update_period args,
              max_actor_steps = max_actor_steps args,
              num_evaluators = num_evaluators args \<rparr>))"

subsection \<open>\<^verbatim>\<open>replay\<close>\<close>

text \<open>Python truthiness of an optional float: \<^verbatim>\<open>None\<close> and \<^verbatim>\<open>0.0\<close> are falsy.\<close>

fun truthy :: "real option \<Rightarrow> bool" where
  "truthy None = False"
| "truthy (Some x) = (x \<noteq> 0)"

text \<open>
  The two rate limiters of \<^verbatim>\<open>reverb.rate_limiters\<close> the source constructs, with the
  arguments in the order \<^verbatim>\<open>min_size_to_sample\<close>, \<^verbatim>\<open>samples_per_insert\<close>, \<^verbatim>\<open>error_buffer\<close>.
\<close>

datatype rate_limiter =
    SampleToInsertRatio int "real option" int
  | MinSize int

text \<open>The two selectors of \<^verbatim>\<open>reverb.selectors\<close> the source constructs.\<close>

datatype selector = Prioritized real | Fifo

text \<open>\<^verbatim>\<open>adders.DEFAULT_PRIORITY_TABLE\<close>, a constant of acme.\<close>

definition DEFAULT_PRIORITY_TABLE :: string where
  "DEFAULT_PRIORITY_TABLE = ''priority_table''"

text \<open>The keyword arguments of \<^verbatim>\<open>reverb.Table\<close>; the signature is determined by the spec.\<close>

record 'spec Table =
  name :: string
  sampler :: selector
  remover :: selector
  max_size :: int
  rate_limiter :: rate_limiter
  signature :: 'spec

definition replay :: "('env, 'spec) DistributedDQN \<Rightarrow> 'spec Table list" where
  "replay self =
     (let limiter =
            (if truthy (samples_per_insert self) then
               SampleToInsertRatio (min_replay_size self) (samples_per_insert self)
                 (batch_size self)
             else MinSize (min_replay_size self));
          replay_table = \<lparr>
            name = DEFAULT_PRIORITY_TABLE,
            sampler = Prioritized (priority_exponent self),
            remover = Fifo,
            max_size = max_replay_size self,
            rate_limiter = limiter,
            signature = env_spec self \<rparr>
      in [replay_table])"

subsection \<open>\<^verbatim>\<open>actor\<close>\<close>

text \<open>
  \<^verbatim>\<open>adders.NStepTransitionAdder(client, n_step, discount, priority_fns)\<close>; the dictionary
  \<^verbatim>\<open>priority_fns\<close> maps a table name to a function of the item to insert.
\<close>

record 't NStepTransitionAdder =
  adder_client :: handle
  adder_n_step :: int
  adder_discount :: real
  priority_fns :: "string \<rightharpoonup> ('t \<Rightarrow> real)"

text \<open>
  The priorities an adder attaches to an item \<open>x\<close>, one per table of \<^verbatim>\<open>priority_fns\<close>
  (acme's \<^verbatim>\<open>calculate_priorities\<close>: each table's function applied to the item).
\<close>

definition calculate_priorities :: "(string \<rightharpoonup> ('t \<Rightarrow> real)) \<Rightarrow> 't \<Rightarrow> (string \<rightharpoonup> real)" where
  "calculate_priorities fns x = (\<lambda>table. map_option (\<lambda>f. f x) (fns table))"

text \<open>
  The \<^verbatim>\<open>acme.EnvironmentLoop\<close> an actor process runs: its environment, the actor
  (epsilon of its schedule, adder, variable client), the counter prefix.
\<close>

record ('env, 't) EnvironmentLoop =
  loop_environment :: 'env
  loop_epsilon :: real
  loop_adder :: "'t NStepTransitionAdder"
  loop_variable_client :: VariableClient
  loop_counter :: label

definition actor ::
  "('env, 'spec) DistributedDQN \<Rightarrow> handle \<Rightarrow> handle \<Rightarrow> handle \<Rightarrow> real
     \<Rightarrow> event list \<times> ('env, 't) EnvironmentLoop" where
  "actor self replay_client variable_source counter epsilon =
     (let environment = environment_factory self False;
          variable_client = \<lparr> client = variable_source,
                              update_period = variable_update_period self \<rparr>;
          adder = \<lparr> adder_client = replay_client,
                    adder_n_step = n_step self,
                    adder_discount = discount self,
                    priority_fns = [DEFAULT_PRIORITY_TABLE \<mapsto> (\<lambda>x. default_priority self)] \<rparr>
      in ([EnvironmentFactory False,
           NetworkFactory,
           CreateVariables,
           VariableClientInit variable_client,
           UpdateAndWait variable_client,
           NStepTransitionAdderInit,
           CounterInit (Lit ''actor''),
           AtariEpsilonScheduleInit epsilon,
           FeedForwardActorWithEpsilonScheduleInit variable_client,
           MakeDefaultLogger ''actor'',
           EnvironmentLoopInit variable_client],
          \<lparr> loop_environment = environment,
            loop_epsilon = epsilon,
            loop_adder = adder,
            loop_variable_client = variable_client,
            loop_counter = Lit ''actor'' \<rparr>))"

subsection \<open>\<^verbatim>\<open>evaluator\<close>\<close>

text \<open>The keyword arguments of \<^verbatim>\<open>evaluator_cls\<close>, with the actor's epsilon and variable client.\<close>

record 'env EvaluatorLoop =
  eval_max_actor_steps :: int
  eval_label :: label
  eval_environment :: 'env
  eval_epsilon :: real
  eval_variable_client :: VariableClient
  eval_counter :: label
  eval_eval_id :: int

definition evaluator ::
  "('env, 'spec) DistributedDQN \<Rightarrow> handle \<Rightarrow> handle \<Rightarrow> int
     \<Rightarrow> event list \<times> 'env EvaluatorLoop" where
  "evaluator self variable_source counter eval_id =
     (let use_test_env = (eval_id > 0);
          environment = environment_factory self use_test_env;
          variable_client = \<lparr> client = variable_source, update_period = 1 \<rparr>
      in ([EnvironmentFactory use_test_env,
           NetworkFactory,
           SequentialInit,
           CreateVariables,
           VariableClientInit variable_client,
           UpdateAndWait variable_client,
           FeedForwardActorInit variable_client,
           CounterInit (Fmt ''evaluator'' eval_id),
           EvaluatorClsInit eval_id variable_client],
          \<lparr> eval_max_actor_steps = max_actor_steps self,
            eval_label = Fmt ''evaluator'' eval_id,
            eval_environment = environment,
            eval_epsilon = evaluator_epsilon self,
            eval_variable_client = variable_client,
            eval_counter = Fmt ''evaluator'' eval_id,
            eval_eval_id = eval_id \<rparr>))"

subsection \<open>The NumPy functions used by \<^verbatim>\<open>build\<close>\<close>

text \<open>Python's \<^verbatim>\<open>range(n)\<close>: empty when \<open>n \<le> 0\<close>.\<close>

definition pyrange :: "int \<Rightarrow> int list" where
  "pyrange n = map int [0..<nat n]"

text \<open>
  \<^verbatim>\<open>np.linspace(start, stop, num)\<close> with \<^verbatim>\<open>endpoint=True\<close>: a negative \<^verbatim>\<open>num\<close> raises
  \<^verbatim>\<open>ValueError\<close>; the samples are \<^verbatim>\<open>arange(0, num) * step + start\<close> with
  \<^verbatim>\<open>step = (stop - start) / (num - 1)\<close>, or \<^verbatim>\<open>arange(0, num) * (stop - start) + start\<close> when
  \<^verbatim>\<open>num - 1\<close> is not positive; the last sample is overwritten with \<^verbatim>\<open>stop\<close> when
  \<^verbatim>\<open>num > 1\<close>.
\<close>

definition linspace :: "real \<Rightarrow> real \<Rightarrow> int \<Rightarrow> error + real list" where
  "linspace start stop num =
     (if num < 0 then Inl ValueError
      else
        let dv = num - 1;
            delta = stop - start;
            y = map real_of_int (pyrange num);
            y = (if dv > 0 then map (\<lambda>v. v * (delta / real_of_int dv)) y
                 else map (\<lambda>v. v * delta) y);
            y = map (\<lambda>v. v + start) y
        in Inr (if num > 1 then y[nat num - 1 := stop] else y))"

text \<open>\<^verbatim>\<open>np.logspace(start, stop, num, base)\<close> is \<^verbatim>\<open>power(base, linspace(start, stop, num))\<close>.\<close>

definition logspace :: "real \<Rightarrow> real \<Rightarrow> int \<Rightarrow> real \<Rightarrow> error + real list" where
  "logspace start stop num base =
     (case linspace start stop num of
        Inl e \<Rightarrow> Inl e
      | Inr y \<Rightarrow> Inr (map (\<lambda>v. base powr v) y))"

text \<open>\<^verbatim>\<open>np.flip(a, axis=0)\<close> on a one-dimensional array.\<close>

definition flip :: "'a list \<Rightarrow> 'a list" where
  "flip a = rev a"

text \<open>
  The epsilons of the actors, as \<^verbatim>\<open>build\<close> computes them from the number of actors:
  \<^verbatim>\<open>np.flip(np.logspace(1, 8, self._num_actors, base=0.4), axis=0)\<close>.
\<close>

definition epsilons :: "int \<Rightarrow> error + real list" where
  "epsilons num = (case logspace 1 8 num (4 / 10) of Inl e \<Rightarrow> Inl e | Inr l \<Rightarrow> Inr (flip l))"

subsection \<open>\<^verbatim>\<open>build\<close>\<close>

text \<open>
  The nodes \<^verbatim>\<open>build\<close> adds to the launchpad program, each with the arguments of the
  source: \<^verbatim>\<open>ReverbNode(self.replay)\<close>, \<^verbatim>\<open>CourierNode(self.counter)\<close>,
  \<^verbatim>\<open>CourierNode(self.learner, replay, counter)\<close>,
  \<^verbatim>\<open>CourierNode(self.evaluator, learner, counter, i)\<close>,
  \<^verbatim>\<open>CacherNode(learner, refresh_interval_ms, stale_after_ms)\<close> and
  \<^verbatim>\<open>CourierNode(self.actor, replay, source, counter, epsilon)\<close>.
\<close>

datatype node =
    ReverbNode
  | CounterNode
  | LearnerNode handle handle
  | EvaluatorNode handle handle int
  | CacherNode handle int int
  | ActorNode handle handle handle real

text \<open>A program is its name and its nodes in the order added, each under its group.\<close>

record Program =
  program_name :: string
  nodes :: "(string \<times> node) list"

definition add_node :: "string \<Rightarrow> node \<Rightarrow> Program \<Rightarrow> handle \<times> Program" where
  "add_node label n program =
     (Handle (length (nodes program)), program\<lparr>nodes := nodes program @ [(label, n)]\<rparr>)"

text \<open>
  The loop over \<^verbatim>\<open>enumerate(epsilons)\<close>. \<^verbatim>\<open>actor_id % len(sources)\<close> raises
  \<^verbatim>\<open>ZeroDivisionError\<close> when there is no source; the index is then in range.
\<close>

fun add_actors ::
  "handle \<Rightarrow> handle \<Rightarrow> handle list \<Rightarrow> (nat \<times> real) list \<Rightarrow> Program \<Rightarrow> error + Program" where
  "add_actors replay_h counter_h sources [] program = Inr program"
| "add_actors replay_h counter_h sources ((actor_id, epsilon) # rest) program =
     (if length sources = 0 then Inl ZeroDivisionError
      else
        let source = sources ! (actor_id mod length sources);
            (_, program) = add_node ''actor'' (ActorNode replay_h source counter_h epsilon) program
        in add_actors replay_h counter_h sources rest program)"

definition build :: "('env, 'spec) DistributedDQN \<Rightarrow> string \<Rightarrow> error + Program" where
  "build self nm =
     (let program = \<lparr> program_name = nm, nodes = [] \<rparr>;
          (replay_h, program) = add_node ''replay'' ReverbNode program;
          (counter_h, program) = add_node ''counter'' CounterNode program;
          (learner_h, program) = add_node ''learner'' (LearnerNode replay_h counter_h) program;
          program = fold (\<lambda>i program.
                      snd (add_node ''evaluator'' (EvaluatorNode learner_h counter_h i) program))
                      (pyrange (num_evaluators self)) program
      in case epsilons (num_actors self) of
           Inl e \<Rightarrow> Inl e
         | Inr eps \<Rightarrow>
             let (sources, program) =
                    fold (\<lambda>_ (sources, program).
                            let (cacher, program) =
                                  add_node ''cacher'' (CacherNode learner_h 2000 4000) program
                            in (sources @ [cacher], program))
                      (pyrange (num_caches self)) ([], program)
             in add_actors replay_h counter_h sources (enumerate 0 eps) program)"

subsection \<open>Reading a trace\<close>

text \<open>The arguments of the calls of the environment factory, in order.\<close>

fun environment_requests :: "event list \<Rightarrow> bool list" where
  "environment_requests [] = []"
| "environment_requests (EnvironmentFactory use_test_env # es) = use_test_env # environment_requests es"
| "environment_requests (_ # es) = environment_requests es"

text \<open>
  Modelled from the spec: what a process does with the loop its method returned
  (launchpad, which calls the method and runs the result, and the loops of acme are not
  part of the sources). Section 4.5: ``\<^verbatim>\<open>INIT -> (fetch initial parameters, blocking) ->
  RUN_LOOP\<close>'', and in \<^verbatim>\<open>RUN_LOOP\<close> the actor chooses an action and steps the environment;
  section 4.6: the evaluator has the ``same action-selection structure''. The trace of a
  process is the trace of its method followed by the environment steps of the loop,
  \<open>steps\<close> of them when the process is stopped.
\<close>

definition run_process :: "event list \<Rightarrow> VariableClient \<Rightarrow> nat \<Rightarrow> event list" where
  "run_process construction loop_client steps =
     construction @ replicate steps (EnvironmentStep loop_client)"

text \<open>
  A trace fetches first when every loop it creates and every environment step it takes
  is on a variable client whose \<^verbatim>\<open>update_and_wait\<close> has returned earlier in the trace;
  \<open>fetched\<close> are the clients fetched so far.
\<close>

fun fetch_first :: "VariableClient list \<Rightarrow> event list \<Rightarrow> bool" where
  "fetch_first fetched [] = True"
| "fetch_first fetched (UpdateAndWait c # es) = fetch_first (c # fetched) es"
| "fetch_first fetched (EnvironmentLoopInit c # es) =
     (c \<in> set fetched \<and> fetch_first fetched es)"
| "fetch_first fetched (EvaluatorClsInit eval_id c # es) =
     (c \<in> set fetched \<and> fetch_first fetched es)"
| "fetch_first fetched (EnvironmentStep c # es) =
     (c \<in> set fetched \<and> fetch_first fetched es)"
| "fetch_first fetched (_ # es) = fetch_first fetched es"

text \<open>The variable client of the actor of a loop that is created or takes a step.\<close>

fun acting_client :: "event \<Rightarrow> VariableClient option" where
  "acting_client (EnvironmentLoopInit c) = Some c"
| "acting_client (EvaluatorClsInit eval_id c) = Some c"
| "acting_client (EnvironmentStep c) = Some c"
| "acting_client _ = None"

text \<open>The environment steps of a trace, in order.\<close>

fun environment_steps :: "event list \<Rightarrow> VariableClient list" where
  "environment_steps [] = []"
| "environment_steps (EnvironmentStep c # es) = c # environment_steps es"
| "environment_steps (_ # es) = environment_steps es"

subsection \<open>Reading a built program\<close>

text \<open>The node a handle refers to.\<close>

definition node_at :: "Program \<Rightarrow> handle \<Rightarrow> node option" where
  "node_at program h =
     (case h of Handle k \<Rightarrow>
        if k < length (nodes program) then Some (snd (nodes program ! k)) else None)"

text \<open>The evaluator nodes in the order added, each as (variable source, eval id).\<close>

fun evaluator_args :: "node \<Rightarrow> (handle \<times> int) list" where
  "evaluator_args (EvaluatorNode variable_source counter_h eval_id) = [(variable_source, eval_id)]"
| "evaluator_args _ = []"

definition evaluators :: "Program \<Rightarrow> (handle \<times> int) list" where
  "evaluators program = concat (map (\<lambda>gn. evaluator_args (snd gn)) (nodes program))"

text \<open>
  The actor nodes in the order added, which is the order of \<^verbatim>\<open>actor_id\<close>, each as
  (variable source, epsilon).
\<close>

fun actor_args :: "node \<Rightarrow> (handle \<times> real) list" where
  "actor_args (ActorNode replay_h variable_source counter_h epsilon) = [(variable_source, epsilon)]"
| "actor_args _ = []"

definition actors :: "Program \<Rightarrow> (handle \<times> real) list" where
  "actors program = concat (map (\<lambda>gn. actor_args (snd gn)) (nodes program))"

text \<open>The handles of the cacher nodes in the order added: cache \<open>k\<close> is \<open>cachers program ! k\<close>.\<close>

fun is_cacher :: "node \<Rightarrow> bool" where
  "is_cacher (CacherNode learner_h refresh_interval_ms stale_after_ms) = True"
| "is_cacher _ = False"

fun cachers_from :: "nat \<Rightarrow> (string \<times> node) list \<Rightarrow> handle list" where
  "cachers_from k [] = []"
| "cachers_from k (gn # rest) =
     (if is_cacher (snd gn) then Handle k # cachers_from (Suc k) rest
      else cachers_from (Suc k) rest)"

definition cachers :: "Program \<Rightarrow> handle list" where
  "cachers program = cachers_from 0 (nodes program)"

text \<open>The number of actors whose variable source is \<open>h\<close>.\<close>

definition load :: "Program \<Rightarrow> handle \<Rightarrow> nat" where
  "load program h = length (filter (\<lambda>a. fst a = h) (actors program))"

text \<open>The handles \<open>a, a + 1, \<dots>, a + k - 1\<close>.\<close>

definition handles_from :: "nat \<Rightarrow> nat \<Rightarrow> handle list" where
  "handles_from a k = map Handle [a..<a + k]"

text \<open>
  The program \<^verbatim>\<open>build\<close> returns when it returns one, given the epsilons: replay, counter
  and learner at positions 0, 1 and 2, then the evaluators, the cachers and the actors.
\<close>

definition built :: "('env, 'spec) DistributedDQN \<Rightarrow> string \<Rightarrow> real list \<Rightarrow> Program" where
  "built self nm eps = \<lparr> program_name = nm, nodes =
      [(''replay'', ReverbNode), (''counter'', CounterNode),
       (''learner'', LearnerNode (Handle 0) (Handle 1))]
      @ map (\<lambda>i. (''evaluator'', EvaluatorNode (Handle 2) (Handle 1) i))
          (pyrange (num_evaluators self))
      @ replicate (nat (num_caches self)) (''cacher'', CacherNode (Handle 2) 2000 4000)
      @ map (\<lambda>(i, e). (''actor'',
              ActorNode (Handle 0)
                (Handle (3 + nat (num_evaluators self) + i mod nat (num_caches self)))
                (Handle 1) e))
          (enumerate 0 eps) \<rparr>"

text \<open>The exponent \<^verbatim>\<open>linspace(1, 8, num)\<close> gives at position \<open>i\<close>.\<close>

definition expo :: "int \<Rightarrow> nat \<Rightarrow> real" where
  "expo num i = 1 + real i * 7 / real_of_int (num - 1)"

subsection \<open>The replay store behind the table\<close>







subsection \<open>A concrete configuration\<close>

text \<open>
  The defaults of the constructor's signature, for a given spec, number of actors and
  number of caches; the environment is identified with the flag it was requested with.
\<close>

definition defaults :: "'s \<Rightarrow> int \<Rightarrow> int \<Rightarrow> (bool, 's) DistributedDQN" where
  "defaults sp n k = \<lparr>
     environment_factory = (\<lambda>use_test_env. use_test_env),
     num_actors = n,
     num_caches = k,
     env_spec = sp,
     batch_size = 256,
     prefetch_size = 4,
     target_update_period = 100,
     samples_per_insert = Some 32,
     min_replay_size = 1000,
     max_replay_size = 1000000,
     importance_sampling_exponent = 2 / 10,
     priority_exponent = 6 / 10,
     default_priority = 4,
     n_step = 5,
     learning_rate = 1 / 1000,
     evaluator_epsilon = 0,
     discount = 99 / 100,
     variable_update_period = 1000,
     max_actor_steps = 25000000,
     num_evaluators = 1 \<rparr>"

text \<open>
  The program of two actors and one cache, with the other defaults and the name
  \<^verbatim>\<open>dqn\<close>, node by node.
\<close>

definition two_actor_program :: Program where
  "two_actor_program = \<lparr> program_name = ''dqn'', nodes =
     [(''replay'', ReverbNode),
      (''counter'', CounterNode),
      (''learner'', LearnerNode (Handle 0) (Handle 1)),
      (''evaluator'', EvaluatorNode (Handle 2) (Handle 1) 0),
      (''cacher'', CacherNode (Handle 2) 2000 4000),
      (''actor'', ActorNode (Handle 0) (Handle 4) (Handle 1) ((4 / 10) ^ 8)),
      (''actor'', ActorNode (Handle 0) (Handle 4) (Handle 1) (4 / 10))] \<rparr>"

section \<open>Properties\<close>

subsection \<open>The NumPy functions in closed form\<close>

lemma linspace_closed:
  "0 \<le> n \<Longrightarrow> linspace s t n =
     Inr (map (\<lambda>i. s + real i * (t - s) / real_of_int (n - 1)) [0..<nat n])"
proof -
  assume n: "0 \<le> n"
  consider "n = 0" | "n = 1" | "1 < n" using n by linarith
  then show ?thesis
  proof cases
    case 1 then show ?thesis by (simp add: linspace_def pyrange_def)
  next
    case 2 then show ?thesis by (simp add: linspace_def pyrange_def)
  next
    case 3
    then show ?thesis
      unfolding linspace_def pyrange_def Let_def
      by (auto intro!: nth_equalityI simp: nth_list_update field_simps)
  qed
qed


lemma epsilons_closed:
  "0 \<le> n \<Longrightarrow> epsilons n =
     Inr (rev (map (\<lambda>i. (4 / 10) powr (1 + real i * 7 / real_of_int (n - 1))) [0..<nat n]))"
  by (simp add: epsilons_def logspace_def linspace_closed flip_def comp_def)

lemma epsilons_negative: "n < 0 \<Longrightarrow> epsilons n = Inl ValueError"
  by (simp add: epsilons_def logspace_def linspace_def)

lemma expo_less: "i < j \<Longrightarrow> j < nat n \<Longrightarrow> expo n i < expo n j"
  unfolding expo_def
  by (simp add: divide_strict_right_mono)

lemma expo_bounds: "i < nat n \<Longrightarrow> 1 \<le> expo n i \<and> expo n i \<le> 8"
  unfolding expo_def
  by (cases "n = 1") (simp_all add: field_simps)

lemma eps_sorted:
  "sorted_wrt (<) (rev (map (\<lambda>i. (4 / 10 :: real) powr expo n i) [0..<nat n]))"
  unfolding sorted_wrt_rev sorted_wrt_map
  apply (rule sorted_wrt_mono_rel[OF _ sorted_wrt_upt])
  apply (simp add: powr_less_mono' expo_less)
  done

lemma eps_bounds:
  assumes "e \<in> set (rev (map (\<lambda>i. (4 / 10 :: real) powr expo n i) [0..<nat n]))"
  shows "(4 / 10) ^ 8 \<le> e \<and> e \<le> (4 / 10) ^ 1"
proof -
  from assms obtain i where i: "i < nat n" and e: "e = (4 / 10) powr expo n i" by auto
  have b: "1 \<le> expo n i" "expo n i \<le> 8" using expo_bounds[OF i] by auto
  have "(4 / 10 :: real) powr 8 \<le> (4 / 10) powr expo n i"
    using b by (intro powr_mono') auto
  moreover have "(4 / 10 :: real) powr expo n i \<le> (4 / 10) powr 1"
    using b by (intro powr_mono') auto
  ultimately show ?thesis using e by (simp add: powr_numeral)
qed


subsection \<open>The program in closed form\<close>

lemma fold_evaluators:
  "fold (\<lambda>i program. snd (add_node ''evaluator'' (EvaluatorNode l c i) program)) xs p
     = p\<lparr>nodes := nodes p @ map (\<lambda>i. (''evaluator'', EvaluatorNode l c i)) xs\<rparr>"
  by (induction xs arbitrary: p) (simp_all add: add_node_def)

lemma length_handles_from: "length (handles_from a k) = k"
  by (simp add: handles_from_def)

lemma nth_handles_from: "j < k \<Longrightarrow> handles_from a k ! j = Handle (a + j)"
  by (simp add: handles_from_def)

lemma handles_from_Nil: "(handles_from a k = []) = (k = 0)"
  by (auto simp: handles_from_def)

lemma handles_from_step: "srcs @ Handle a # handles_from (Suc a) k = srcs @ handles_from a (Suc k)"
  by (simp add: handles_from_def upt_conv_Cons del: upt_Suc)

lemma fold_cachers:
  "fold (\<lambda>_ (sources, program).
            let (cacher, program) = add_node ''cacher'' (CacherNode l a b) program
            in (sources @ [cacher], program)) (xs :: int list) (srcs, p)
     = (srcs @ handles_from (length (nodes p)) (length xs),
        p\<lparr>nodes := nodes p @ replicate (length xs) (''cacher'', CacherNode l a b)\<rparr>)"
proof (induction xs arbitrary: srcs p)
  case Nil
  then show ?case by (simp add: handles_from_def)
next
  case (Cons x xs)
  show ?case
    using Cons.IH by (simp add: add_node_def handles_from_step replicate_app_Cons_same)
qed

lemma add_actors_closed:
  "sources \<noteq> [] \<Longrightarrow> add_actors r c sources xs p
     = Inr (p\<lparr>nodes := nodes p @
          map (\<lambda>(i, e). (''actor'', ActorNode r (sources ! (i mod length sources)) c e)) xs\<rparr>)"
  by (induction xs arbitrary: p) (auto simp: add_node_def)

lemma add_actors_no_source:
  "add_actors r c [] xs p = (if xs = [] then Inr p else Inl ZeroDivisionError)"
  by (cases xs) auto

lemma build_closed:
  assumes "epsilons (num_actors self) = Inr eps" and "1 \<le> num_caches self"
  shows "build self nm = Inr (built self nm eps)"
proof -
  have len: "length (pyrange k) = nat k" for k by (simp add: pyrange_def)
  have pos: "0 < nat (num_caches self)" using assms(2) by simp
  have nth: "handles_from a (nat (num_caches self)) ! (i mod nat (num_caches self))
               = Handle (a + i mod nat (num_caches self))" for a i
    using pos by (simp add: nth_handles_from)
  have ne: "handles_from a (nat (num_caches self)) \<noteq> []" for a
    using pos by (simp add: handles_from_Nil)
  show ?thesis
    unfolding build_def Let_def
    using fold_evaluators fold_cachers
    by (simp add: add_node_def assms(1) len add_actors_closed ne nth length_handles_from
          built_def eval_nat_numeral)
qed


lemma build_closed_no_actor:
  assumes "epsilons (num_actors self) = Inr []"
  shows "build self nm = Inr (built self nm [])"
proof -
  have len: "length (pyrange k) = nat k" for k by (simp add: pyrange_def)
  show ?thesis
    unfolding build_def Let_def
    using fold_evaluators fold_cachers
    by (simp add: add_node_def assms(1) len length_handles_from built_def eval_nat_numeral)
qed

lemma epsilons_length: "epsilons n = Inr eps \<Longrightarrow> 0 \<le> n \<and> length eps = nat n"
  by (cases "n < 0") (auto simp: epsilons_negative epsilons_closed)

lemma build_no_source:
  assumes "epsilons (num_actors self) = Inr eps" and "eps \<noteq> []" and "\<not> 1 \<le> num_caches self"
  shows "build self nm = Inl ZeroDivisionError"
proof -
  have z: "pyrange (num_caches self) = []" using assms(3) by (simp add: pyrange_def)
  obtain e es where eps: "eps = e # es" using assms(2) by (cases eps) auto
  show ?thesis
    unfolding build_def Let_def
    by (simp add: add_node_def assms(1) z eps enumerate_simps)
qed

lemma build_Inr:
  assumes "build self nm = Inr p"
  obtains eps where "epsilons (num_actors self) = Inr eps"
    and "1 \<le> num_caches self \<or> eps = []" and "p = built self nm eps"
proof (cases "epsilons (num_actors self)")
  case (Inl e)
  then have "build self nm = Inl e" by (simp add: build_def Let_def add_node_def split: prod.splits)
  with assms show ?thesis by simp
next
  case (Inr eps)
  show ?thesis
  proof (cases "1 \<le> num_caches self")
    case True
    with Inr assms that show ?thesis by (simp add: build_closed)
  next
    case False
    show ?thesis
    proof (cases "eps = []")
      case True
      with Inr assms that show ?thesis by (simp add: build_closed_no_actor)
    next
      case False
      with Inr \<open>\<not> 1 \<le> num_caches self\<close> assms show ?thesis
        by (simp add: build_no_source)
    qed
  qed
qed

subsection \<open>Reading the program in closed form\<close>

lemma concat_map_Nil: "(\<And>x. x \<in> set xs \<Longrightarrow> f x = []) \<Longrightarrow> concat (map f xs) = []"
  by (induction xs) auto

lemma evaluators_built:
  "evaluators (built self nm eps) = map (\<lambda>i. (Handle 2, i)) (pyrange (num_evaluators self))"
  by (simp add: evaluators_def built_def comp_def concat_map_Nil split_def)

lemma actors_built:
  "actors (built self nm eps) =
     map (\<lambda>(i, e). (Handle (3 + nat (num_evaluators self) + i mod nat (num_caches self)), e))
       (enumerate 0 eps)"
  by (simp add: actors_def built_def comp_def concat_map_Nil split_def)

lemma cachers_from_append:
  "cachers_from k (xs @ ys) = cachers_from k xs @ cachers_from (k + length xs) ys"
  by (induction xs arbitrary: k) auto

lemma cachers_from_none:
  "(\<And>x. \<not> is_cacher (snd (f x))) \<Longrightarrow> cachers_from k (map f xs) = []"
  by (induction xs arbitrary: k) auto

lemma cachers_from_replicate:
  "cachers_from k (replicate m (g, CacherNode l a b)) = handles_from k m"
proof (induction m arbitrary: k)
  case 0
  then show ?case by (simp add: handles_from_def)
next
  case (Suc m)
  show ?case using handles_from_step[of "[]" k m] by (simp add: Suc.IH)
qed

lemma cachers_built:
  "cachers (built self nm eps) = handles_from (3 + nat (num_evaluators self)) (nat (num_caches self))"
proof -
  have len: "length (pyrange k) = nat k" for k by (simp add: pyrange_def)
  have "cachers_from 0 (nodes (built self nm eps)) = 
     handles_from (3 + nat (num_evaluators self)) (nat (num_caches self))"
    unfolding built_def
    by (simp add: cachers_from_append cachers_from_none cachers_from_replicate len
        eval_nat_numeral split_def)
  then show ?thesis by (simp add: cachers_def)
qed

lemma count_mod:
  "a < k \<Longrightarrow> length (filter (\<lambda>i. i mod k = a) [0..<n]) = n div k + (if a < n mod k then 1 else 0)"
proof (induction n)
  case 0
  then show ?case by simp
next
  case (Suc n)
  then show ?case
    by (auto simp: mod_Suc div_Suc)
qed


lemma load_built:
  "load (built self nm eps) (Handle (3 + nat (num_evaluators self) + a))
     = length (filter (\<lambda>i. i mod nat (num_caches self) = a) [0..<length eps])"
proof -
  have "length (filter (\<lambda>x. Q (fst x)) xs) = length (filter Q (map fst xs))"
    for Q :: "nat \<Rightarrow> bool" and xs :: "(nat \<times> real) list"
    by (induction xs) auto
  from this[of "\<lambda>i. i mod nat (num_caches self) = a" "enumerate 0 eps"]
  show ?thesis
    by (simp add: load_def actors_built filter_map comp_def split_def)
qed

lemma length_pyrange: "length (pyrange k) = nat k"
  by (simp add: pyrange_def)

lemma node_at_learner:
  "node_at (built self nm eps) (Handle 2) = Some (LearnerNode (Handle 0) (Handle 1))"
  by (simp add: node_at_def built_def eval_nat_numeral)

lemma node_at_cacher:
  "j < nat (num_caches self) \<Longrightarrow>
   node_at (built self nm eps) (Handle (3 + nat (num_evaluators self) + j))
     = Some (CacherNode (Handle 2) 2000 4000)"
  by (simp add: node_at_def built_def nth_append length_pyrange eval_nat_numeral)

lemma set_handles_from: "set (handles_from a k) = Handle ` {a..<a + k}"
  by (simp add: handles_from_def)

lemma build_defaults:
  "0 \<le> n \<Longrightarrow> 1 \<le> k \<Longrightarrow> \<exists>p. build (defaults sp n k) nm = Inr p"
  using build_closed[of "defaults sp n k" _ nm] epsilons_closed[of n]
  by (simp add: defaults_def)


lemma build_actors_length:
  "build self nm = Inr p \<Longrightarrow> length (actors p) = nat (num_actors self)"
  by (erule build_Inr) (simp add: actors_built epsilons_length)

subsection \<open>The epsilons of the actors\<close>

lemma epsilons_2: "epsilons 2 = Inr [(4 / 10) ^ 8, 4 / 10]"
  by (simp add: epsilons_def logspace_def linspace_def pyrange_def flip_def Let_def powr_numeral
      upt_conv_Cons)

lemma map_snd_actors_built: "map snd (actors (built self nm eps)) = eps"
proof -
  have "map (\<lambda>x. snd x) (enumerate 0 eps) = eps" by (simp add: map_snd_enumerate)
  then show ?thesis by (simp add: actors_built comp_def split_def)
qed

lemma expo_step: "expo n (Suc j) = expo n j + 7 / real_of_int (n - 1)"
  by (simp add: expo_def distrib_right add_divide_distrib)

lemma eps_ratio:
  assumes "Suc i < nat n"
  shows "rev (map (\<lambda>i. (4 / 10 :: real) powr expo n i) [0..<nat n]) ! i
       = rev (map (\<lambda>i. (4 / 10 :: real) powr expo n i) [0..<nat n]) ! Suc i
           * (4 / 10) powr (7 / real_of_int (n - 1))"
proof -
  let ?g = "\<lambda>i. (4 / 10 :: real) powr expo n i"
  define j where "j = nat n - Suc (Suc i)"
  have s: "nat n - Suc i = Suc j" and l: "Suc j < nat n" "j < nat n"
    using assms by (simp_all add: j_def)
  have a: "rev (map ?g [0..<nat n]) ! i = ?g (Suc j)"
    using assms l by (simp add: rev_nth s del: upt_Suc)
  have b: "rev (map ?g [0..<nat n]) ! Suc i = ?g j"
    using assms l by (simp add: rev_nth j_def[symmetric] del: upt_Suc)
  show ?thesis unfolding a b by (simp add: expo_step powr_add)
qed

subsection \<open>Traces that fetch first\<close>

lemma fetch_first_steps:
  "c \<in> set fetched \<Longrightarrow> fetch_first fetched (replicate n (EnvironmentStep c))"
  by (induction n) simp_all

lemma environment_steps_replicate:
  "environment_steps (replicate n (EnvironmentStep c)) = replicate n c"
  by (induction n) simp_all

lemma fetch_first_sound:
  "fetch_first fetched (pre @ ev # post) \<Longrightarrow> acting_client ev = Some c
     \<Longrightarrow> c \<in> set fetched \<or> UpdateAndWait c \<in> set pre"
proof (induction pre arbitrary: fetched)
  case Nil
  then show ?case by (cases ev) auto
next
  case (Cons a pre)
  show ?case
  proof (cases a)
    case (UpdateAndWait d)
    with Cons.prems have "fetch_first (d # fetched) (pre @ ev # post)" by simp
    from Cons.IH[OF this Cons.prems(2)] show ?thesis using UpdateAndWait by auto
  qed (use Cons in auto)
qed

subsection \<open>The store of a table with a FIFO remover and a prioritized sampler\<close>












subsection \<open>The constructor\<close>

text \<open>
  C9. The constructor raises \<^verbatim>\<open>AssertionError\<close> when \<^verbatim>\<open>num_caches < 1\<close>, with no
  collaborator called before; when \<^verbatim>\<open>num_caches >= 1\<close> the assertion passes and the object
  is constructed; so an object is constructed only when \<^verbatim>\<open>num_caches >= 1\<close>.
\<close>

theorem init_asserts_num_caches:
  "(num_caches args < 1 \<longrightarrow> init mk args = ([], Inl AssertionError)) \<and>
   (1 \<le> num_caches args \<longrightarrow>
      (\<exists>a. snd (init mk args) = Inr a \<and> num_caches a = num_caches args)) \<and>
   (\<forall>a. snd (init mk args) = Inr a \<longrightarrow> 1 \<le> num_caches args)"
  by (auto simp: init_def Let_def split: option.splits prod.splits)

theorem init_asserts_num_caches_witness:
  "init (\<lambda>env. ()) (defaults None 8 0) = ([], Inl AssertionError) \<and>
   (\<exists>a. snd (init (\<lambda>env. ()) (defaults None 8 1)) = Inr a \<and> num_caches a = 1)"
  using init_asserts_num_caches [of "defaults None 8 0" "\<lambda>env. ()"]
        init_asserts_num_caches [of "defaults None 8 1" "\<lambda>env. ()"]
  by (simp add: defaults_def)

subsection \<open>The topology\<close>

text \<open>
  C4. When \<^verbatim>\<open>num_caches >= 1\<close> and \<^verbatim>\<open>build\<close> returns a program, the program has
  \<^verbatim>\<open>num_caches\<close> cachers and \<^verbatim>\<open>num_actors\<close> actors, the variable source of actor \<open>i\<close> is
  cache \<open>i mod num_caches\<close>, and the numbers of actors of any two caches differ by at
  most one.
\<close>

theorem build_round_robin:
  assumes "1 \<le> num_caches self" and "build self nm = Inr p"
  shows "length (cachers p) = nat (num_caches self) \<and>
         length (actors p) = nat (num_actors self) \<and>
         (\<forall>i < length (actors p).
            fst (actors p ! i) = cachers p ! (i mod nat (num_caches self))) \<and>
         (\<forall>a < nat (num_caches self). \<forall>b < nat (num_caches self).
            load p (cachers p ! a) \<le> load p (cachers p ! b) + 1)"
proof -
  from assms(2) obtain eps where eps: "epsilons (num_actors self) = Inr eps"
    and p: "p = built self nm eps" by (rule build_Inr)
  have len: "length eps = nat (num_actors self)" using epsilons_length[OF eps] by simp
  have pos: "0 < nat (num_caches self)" using assms(1) by simp
  have 1: "length (cachers p) = nat (num_caches self)"
    by (simp add: p cachers_built length_handles_from)
  have 2: "length (actors p) = nat (num_actors self)"
    by (simp add: p actors_built len)
  have 3: "fst (actors p ! i) = cachers p ! (i mod nat (num_caches self))"
    if "i < length (actors p)" for i
  proof -
    have i: "i < length eps" using that 2 len by simp
    have m: "i mod nat (num_caches self) < nat (num_caches self)" using pos by simp
    show ?thesis
      using i by (simp add: p actors_built cachers_built nth_handles_from[OF m] nth_enumerate_eq)
  qed
  have 4: "load p (cachers p ! a) \<le> load p (cachers p ! b) + 1"
    if "a < nat (num_caches self)" and "b < nat (num_caches self)" for a b
    using that
    by (simp add: p cachers_built nth_handles_from load_built count_mod)
  from 1 2 3 4 show ?thesis by blast
qed


theorem build_round_robin_witness:
  "\<exists>p. build (defaults () 10 3) ''dqn'' = Inr p \<and>
       length (cachers p) = 3 \<and> length (actors p) = 10 \<and>
       fst (actors p ! 4) = cachers p ! 1 \<and>
       fst (actors p ! 9) = cachers p ! 0 \<and>
       load p (cachers p ! 0) \<le> load p (cachers p ! 2) + 1"
proof -
  obtain p where b: "build (defaults () 10 3) ''dqn'' = Inr p"
    using build_defaults[of 10 3 "()" "''dqn''"] by auto
  have c: "1 \<le> num_caches (defaults () 10 3)" by (simp add: defaults_def)
  have n: "nat (num_caches (defaults () 10 3)) = 3" "nat (num_actors (defaults () 10 3)) = 10"
    by (simp_all add: defaults_def)
  from build_round_robin[OF c b, unfolded n]
  have l: "length (cachers p) = 3" "length (actors p) = 10"
    and a: "\<forall>i<length (actors p). fst (actors p ! i) = cachers p ! (i mod 3)"
    and d: "\<forall>a<3. \<forall>b<3. load p (cachers p ! a) \<le> load p (cachers p ! b) + 1"
    by blast+
  from a l have "fst (actors p ! 4) = cachers p ! (4 mod 3)" "fst (actors p ! 9) = cachers p ! (9 mod 3)"
    by simp_all
  moreover from d have "load p (cachers p ! 0) \<le> load p (cachers p ! 2) + 1" by simp
  ultimately show ?thesis using b l by simp
qed

text \<open>
  C7. In a program \<^verbatim>\<open>build\<close> returns, the evaluators have the eval ids
  \<open>0, \<dots>, num_evaluators - 1\<close>, the variable source of every evaluator is the learner
  node and no cacher, and the variable source of every actor is a cacher node.
\<close>

theorem evaluators_read_learner:
  assumes "build self nm = Inr p"
  shows "map snd (evaluators p) = pyrange (num_evaluators self) \<and>
         (\<forall>ev \<in> set (evaluators p).
            (\<exists>r c. node_at p (fst ev) = Some (LearnerNode r c)) \<and> fst ev \<notin> set (cachers p)) \<and>
         (\<forall>ac \<in> set (actors p).
            (\<exists>l a b. node_at p (fst ac) = Some (CacherNode l a b)) \<and> fst ac \<in> set (cachers p))"
proof -
  from assms obtain eps where eps: "epsilons (num_actors self) = Inr eps"
    and nc: "1 \<le> num_caches self \<or> eps = []"
    and p: "p = built self nm eps" by (rule build_Inr)
  have 1: "map snd (evaluators p) = pyrange (num_evaluators self)"
    by (simp add: p evaluators_built comp_def)
  have 2: "(\<exists>r c. node_at p (fst ev) = Some (LearnerNode r c)) \<and> fst ev \<notin> set (cachers p)"
    if "ev \<in> set (evaluators p)" for ev
  proof -
    from that have "fst ev = Handle 2" by (auto simp: p evaluators_built)
    then show ?thesis
      by (auto simp: p node_at_learner cachers_built set_handles_from)
  qed
  have 3: "(\<exists>l a b. node_at p (fst ac) = Some (CacherNode l a b)) \<and> fst ac \<in> set (cachers p)"
    if "ac \<in> set (actors p)" for ac
  proof -
    from that obtain i where i: "i < length eps"
      and ac: "fst ac = Handle (3 + nat (num_evaluators self) + i mod nat (num_caches self))"
      by (auto simp: p actors_built in_set_enumerate_eq)
    from i nc have "0 < nat (num_caches self)" by auto
    then have m: "i mod nat (num_caches self) < nat (num_caches self)" by simp
    show ?thesis
      using m by (auto simp: ac p node_at_cacher cachers_built set_handles_from)
  qed
  from 1 2 3 show ?thesis by blast
qed


theorem evaluators_read_learner_witness:
  "\<exists>p. build (defaults () 10 3) ''dqn'' = Inr p \<and>
       map snd (evaluators p) = [0] \<and>
       (\<exists>r c. node_at p (fst (hd (evaluators p))) = Some (LearnerNode r c)) \<and>
       fst (hd (evaluators p)) \<notin> set (cachers p) \<and>
       (\<exists>l a b. node_at p (fst (hd (actors p))) = Some (CacherNode l a b)) \<and>
       fst (hd (actors p)) \<in> set (cachers p)"
proof -
  obtain p where b: "build (defaults () 10 3) ''dqn'' = Inr p"
    using build_defaults[of 10 3 "()" "''dqn''"] by auto
  have e: "pyrange (num_evaluators (defaults () 10 3)) = [0]"
    by (simp add: defaults_def pyrange_def)
  note t = evaluators_read_learner[OF b, unfolded e]
  from t have ids: "map snd (evaluators p) = [0]" by blast
  then have "evaluators p \<noteq> []" by auto
  then have ev: "hd (evaluators p) \<in> set (evaluators p)" by simp
  have "length (actors p) = 10" using build_actors_length[OF b] by (simp add: defaults_def)
  then have "actors p \<noteq> []" by auto
  then have ac: "hd (actors p) \<in> set (actors p)" by simp
  from t ev have 1: "(\<exists>r c. node_at p (fst (hd (evaluators p))) = Some (LearnerNode r c)) \<and>
      fst (hd (evaluators p)) \<notin> set (cachers p)" by blast
  from t ac have 2: "(\<exists>l a b. node_at p (fst (hd (actors p))) = Some (CacherNode l a b)) \<and>
      fst (hd (actors p)) \<in> set (cachers p)" by blast
  from b ids 1 2 show ?thesis by (intro exI[of _ p]) simp
qed

subsection \<open>The exploration schedule\<close>

text \<open>
  C3, as amended. When \<^verbatim>\<open>num_actors >= 1\<close> and \<^verbatim>\<open>build\<close> returns a program, the epsilons
  of the actors, in the order of the actor ids, are strictly increasing (so monotonically
  non-decreasing), each lies between \<open>0.4^8\<close> and \<open>0.4^1\<close>, and they are log-spaced: each
  is the next one times \<open>0.4\<close> to the power \<open>7 / (num_actors - 1)\<close>.
\<close>

theorem actor_epsilons_increasing:
  assumes "1 \<le> num_actors self" and "build self nm = Inr p"
  shows "length (actors p) = nat (num_actors self) \<and>
         sorted_wrt (<) (map snd (actors p)) \<and>
         sorted_wrt (\<le>) (map snd (actors p)) \<and>
         (\<forall>e \<in> set (map snd (actors p)). (4 / 10) ^ 8 \<le> e \<and> e \<le> (4 / 10) ^ 1) \<and>
         (\<forall>i. Suc i < nat (num_actors self) \<longrightarrow>
            snd (actors p ! i)
              = snd (actors p ! Suc i) * (4 / 10) powr (7 / real_of_int (num_actors self - 1)))"
proof -
  let ?n = "num_actors self"
  let ?eps = "rev (map (\<lambda>i. (4 / 10 :: real) powr expo ?n i) [0..<nat ?n])"
  from assms(2) obtain eps where eps: "epsilons ?n = Inr eps"
    and p: "p = built self nm eps" by (rule build_Inr)
  have "epsilons ?n = Inr ?eps"
    using assms(1) epsilons_closed[of ?n] by (simp add: expo_def)
  with eps have e: "eps = ?eps" by simp
  have m: "map snd (actors p) = ?eps" by (simp add: p map_snd_actors_built e)
  have 1: "length (actors p) = nat ?n" using build_actors_length[OF assms(2)] .
  have 2: "sorted_wrt (<) (map snd (actors p))" unfolding m by (rule eps_sorted)
  then have 3: "sorted_wrt (\<le>) (map snd (actors p))"
    by (rule sorted_wrt_mono_rel[rotated]) simp
  have 4: "(4 / 10) ^ 8 \<le> e \<and> e \<le> (4 / 10) ^ 1" if "e \<in> set (map snd (actors p))" for e
    using that unfolding m by (rule eps_bounds)
  have 5: "snd (actors p ! i) = snd (actors p ! Suc i) * (4 / 10) powr (7 / real_of_int (?n - 1))"
    if "Suc i < nat ?n" for i
  proof -
    have "map snd (actors p) ! i = snd (actors p ! i)" "map snd (actors p) ! Suc i = snd (actors p ! Suc i)"
      using that 1 by simp_all
    then show ?thesis using eps_ratio[OF that] unfolding m[symmetric] by simp
  qed
  from 1 2 3 4 5 show ?thesis by blast
qed

theorem actor_epsilons_increasing_witness:
  "\<exists>p. build (defaults () 8 1) ''dqn'' = Inr p \<and>
       length (actors p) = 8 \<and>
       sorted_wrt (<) (map snd (actors p)) \<and>
       sorted_wrt (\<le>) (map snd (actors p)) \<and>
       snd (actors p ! 0) = snd (actors p ! 1) * (4 / 10) powr 1"
proof -
  obtain p where b: "build (defaults () 8 1) ''dqn'' = Inr p"
    using build_defaults[of 8 1 "()" "''dqn''"] by auto
  have n: "num_actors (defaults () 8 1) = 8" by (simp add: defaults_def)
  have c: "1 \<le> num_actors (defaults () 8 1)" by (simp add: n)
  note t = actor_epsilons_increasing[OF c b, unfolded n]
  from t have "Suc 0 < nat 8 \<longrightarrow>
      snd (actors p ! 0) = snd (actors p ! Suc 0) * (4 / 10) powr (7 / real_of_int (8 - 1))"
    by blast
  then have "snd (actors p ! 0) = snd (actors p ! 1) * (4 / 10) powr 1" by simp
  with t b show ?thesis by (intro exI[of _ p]) simp
qed

text \<open>
  C3 as stated fails: with two actors, actor 0 gets \<open>0.4^8\<close> and actor 1 gets \<open>0.4\<close>, so
  the epsilons are not non-increasing in the order of the actor ids.
\<close>

theorem actor_epsilons_counterexample:
  "build (defaults () 2 1) ''dqn'' = Inr two_actor_program \<and>
   \<not> sorted_wrt (\<lambda>a b. b \<le> a) (map snd (actors two_actor_program))"
proof -
  have e: "epsilons (num_actors (defaults () 2 1)) = Inr [(4 / 10) ^ 8, 4 / 10]"
    by (simp add: defaults_def epsilons_2)
  have "build (defaults () 2 1) ''dqn'' = Inr two_actor_program"
    unfolding build_def Let_def e
    by (simp add: add_node_def defaults_def pyrange_def two_actor_program_def enumerate_simps)
  moreover have m: "map snd (actors two_actor_program) = [(4 / 10) ^ 8, 4 / 10]"
    by (simp add: actors_def two_actor_program_def)
  have "\<not> sorted_wrt (\<lambda>a b. b \<le> a) [(4 / 10) ^ 8, 4 / 10 :: real]" by code_simp
  then have "\<not> sorted_wrt (\<lambda>a b. b \<le> a) (map snd (actors two_actor_program))"
    unfolding m .
  ultimately show ?thesis by (rule conjI)
qed


subsection \<open>The replay table\<close>

text \<open>
  C1. \<^verbatim>\<open>replay\<close> returns one table whose rate limiter is chosen by the truthiness of
  \<^verbatim>\<open>samples_per_insert\<close>: a \<^verbatim>\<open>SampleToInsertRatio\<close> with \<^verbatim>\<open>min_size_to_sample\<close> equal to
  \<^verbatim>\<open>min_replay_size\<close> and the configured ratio when it is truthy, and a \<^verbatim>\<open>MinSize\<close> of
  \<^verbatim>\<open>min_replay_size\<close>, which has no ratio, when it is falsy.
\<close>

theorem replay_limiter_by_cases:
  "\<exists>t. replay self = [t] \<and>
     (if truthy (samples_per_insert self)
      then \<exists>b. rate_limiter t
                 = SampleToInsertRatio (min_replay_size self) (samples_per_insert self) b
      else rate_limiter t = MinSize (min_replay_size self))"
  by (simp add: replay_def)

theorem replay_limiter_by_cases_witness:
  "(\<exists>t. replay (defaults () 8 1) = [t] \<and>
        (\<exists>b. rate_limiter t = SampleToInsertRatio 1000 (Some 32) b)) \<and>
   (\<exists>t. replay ((defaults () 8 1)\<lparr>samples_per_insert := None\<rparr>) = [t] \<and>
        rate_limiter t = MinSize 1000) \<and>
   (\<exists>t. replay ((defaults () 8 1)\<lparr>samples_per_insert := Some 0\<rparr>) = [t] \<and>
        rate_limiter t = MinSize 1000)"
  using replay_limiter_by_cases [of "defaults () 8 1"]
        replay_limiter_by_cases [of "(defaults () 8 1)\<lparr>samples_per_insert := None\<rparr>"]
        replay_limiter_by_cases [of "(defaults () 8 1)\<lparr>samples_per_insert := Some 0\<rparr>"]
  by (simp add: defaults_def)

text \<open>
  C10. When \<^verbatim>\<open>samples_per_insert\<close> is truthy, the \<^verbatim>\<open>error_buffer\<close> of the
  \<^verbatim>\<open>SampleToInsertRatio\<close> limiter is \<^verbatim>\<open>batch_size\<close>.
\<close>

theorem replay_error_buffer:
  "truthy (samples_per_insert self) \<Longrightarrow>
   \<exists>m r. map rate_limiter (replay self) = [SampleToInsertRatio m r (batch_size self)]"
  by (simp add: replay_def)

theorem replay_error_buffer_witness:
  "\<exists>m r. map rate_limiter (replay (defaults () 8 1)) = [SampleToInsertRatio m r 256]"
  using replay_error_buffer [of "defaults () 8 1"]
  by (simp add: defaults_def)





subsection \<open>Actors and evaluators\<close>

text \<open>
  C5. In the trace of an actor process and of an evaluator process, stopped after any
  number of environment steps, every creation of a loop and every environment step comes
  after \<^verbatim>\<open>update_and_wait\<close> has returned on the variable client of the actor that acts; the
  loop the method creates and every step taken are on the variable client the method
  returns in its loop.
\<close>

theorem fetch_before_first_action:
  "(\<forall>pre ev post vc.
       run_process (fst (actor self r v c e :: event list \<times> ('env, 'item) EnvironmentLoop)) (loop_variable_client (snd (actor self r v c e :: event list \<times> ('env, 'item) EnvironmentLoop))) n = pre @ ev # post \<longrightarrow>
       acting_client ev = Some vc \<longrightarrow> UpdateAndWait vc \<in> set pre) \<and>
   EnvironmentLoopInit (loop_variable_client (snd (actor self r v c e :: event list \<times> ('env, 'item) EnvironmentLoop))) \<in> set (fst (actor self r v c e :: event list \<times> ('env, 'item) EnvironmentLoop)) \<and>
   environment_steps (run_process (fst (actor self r v c e :: event list \<times> ('env, 'item) EnvironmentLoop)) (loop_variable_client (snd (actor self r v c e :: event list \<times> ('env, 'item) EnvironmentLoop))) n)
     = replicate n (loop_variable_client (snd (actor self r v c e :: event list \<times> ('env, 'item) EnvironmentLoop))) \<and>
   (\<forall>pre ev post vc.
       run_process (fst (evaluator self v' c' i)) (eval_variable_client (snd (evaluator self v' c' i))) n' = pre @ ev # post \<longrightarrow>
       acting_client ev = Some vc \<longrightarrow> UpdateAndWait vc \<in> set pre) \<and>
   EvaluatorClsInit i (eval_variable_client (snd (evaluator self v' c' i))) \<in> set (fst (evaluator self v' c' i)) \<and>
   environment_steps (run_process (fst (evaluator self v' c' i)) (eval_variable_client (snd (evaluator self v' c' i))) n')
     = replicate n' (eval_variable_client (snd (evaluator self v' c' i)))"
proof -
  let ?a = "(actor self r v c e :: event list \<times> ('env, 'item) EnvironmentLoop)"
  let ?e = "(evaluator self v' c' i)"
  have a1: "fetch_first [] (run_process (fst ?a) (loop_variable_client (snd ?a)) n)"
    by (simp add: actor_def run_process_def Let_def fetch_first_steps)
  have a2: "UpdateAndWait vc \<in> set pre"
    if "run_process (fst ?a) (loop_variable_client (snd ?a)) n = pre @ ev # post"
      and "acting_client ev = Some vc" for pre ev post vc
    using fetch_first_sound[OF a1[unfolded that(1)] that(2)] by simp
  have a3: "EnvironmentLoopInit (loop_variable_client (snd ?a)) \<in> set (fst ?a)"
    by (simp add: actor_def Let_def)
  have a4: "environment_steps (run_process (fst ?a) (loop_variable_client (snd ?a)) n)
     = replicate n (loop_variable_client (snd ?a))"
    by (simp add: actor_def run_process_def Let_def environment_steps_replicate)
  have e1: "fetch_first [] (run_process (fst ?e) (eval_variable_client (snd ?e)) n')"
    by (simp add: evaluator_def run_process_def Let_def fetch_first_steps)
  have e2: "UpdateAndWait vc \<in> set pre"
    if "run_process (fst ?e) (eval_variable_client (snd ?e)) n' = pre @ ev # post"
      and "acting_client ev = Some vc" for pre ev post vc
    using fetch_first_sound[OF e1[unfolded that(1)] that(2)] by simp
  have e3: "EvaluatorClsInit i (eval_variable_client (snd ?e)) \<in> set (fst ?e)"
    by (simp add: evaluator_def Let_def)
  have e4: "environment_steps (run_process (fst ?e) (eval_variable_client (snd ?e)) n')
     = replicate n' (eval_variable_client (snd ?e))"
    by (simp add: evaluator_def run_process_def Let_def environment_steps_replicate)
  from a2 a3 a4 e2 e3 e4 show ?thesis by (intro conjI allI impI)
qed

theorem fetch_before_first_action_witness:
  "UpdateAndWait \<lparr>client = Handle 4, update_period = 1000\<rparr>
     \<in> set (fst (actor (defaults () 8 1) (Handle 0) (Handle 4) (Handle 1) (4 / 10)
                   :: event list \<times> (bool, int) EnvironmentLoop)) \<and>
   environment_steps
     (run_process
        (fst (actor (defaults () 8 1) (Handle 0) (Handle 4) (Handle 1) (4 / 10)
                :: event list \<times> (bool, int) EnvironmentLoop))
        \<lparr>client = Handle 4, update_period = 1000\<rparr> 2)
     = [\<lparr>client = Handle 4, update_period = 1000\<rparr>,
        \<lparr>client = Handle 4, update_period = 1000\<rparr>] \<and>
   UpdateAndWait \<lparr>client = Handle 2, update_period = 1\<rparr>
     \<in> set (fst (evaluator (defaults () 8 1) (Handle 2) (Handle 1) 0))"
proof -
  let ?a = "actor (defaults () 8 1) (Handle 0) (Handle 4) (Handle 1) (4 / 10)
               :: event list \<times> (bool, int) EnvironmentLoop"
  let ?e = "evaluator (defaults () 8 1) (Handle 2) (Handle 1) 0"
  let ?ac = "\<lparr>client = Handle 4, update_period = 1000\<rparr>"
  let ?ec = "\<lparr>client = Handle 2, update_period = 1\<rparr>"
  have ca: "loop_variable_client (snd ?a) = ?ac"
    by (simp add: actor_def defaults_def Let_def)
  have ce: "eval_variable_client (snd ?e) = ?ec"
    by (simp add: evaluator_def Let_def)
  note t = fetch_before_first_action
             [of "defaults () 8 1" "Handle 0" "Handle 4" "Handle 1" "4 / 10" _
                 "Handle 2" "Handle 1" 0, where 'item = int, unfolded ca ce]
  have ra: "run_process (fst ?a) ?ac 1 = fst ?a @ EnvironmentStep ?ac # []"
    by (simp add: run_process_def)
  have re: "run_process (fst ?e) ?ec 1 = fst ?e @ EnvironmentStep ?ec # []"
    by (simp add: run_process_def)
  from t[of 1 1] ra have 1: "UpdateAndWait ?ac \<in> set (fst ?a)" by (metis acting_client.simps(3))
  from t[of 1 1] re have 2: "UpdateAndWait ?ec \<in> set (fst ?e)" by (metis acting_client.simps(3))
  from t[of 2 2] have 3: "environment_steps (run_process (fst ?a) ?ac 2) = [?ac, ?ac]"
    by (simp add: numeral_2_eq_2)
  from 1 2 3 show ?thesis by simp
qed

text \<open>
  C6. The evaluator with \<^verbatim>\<open>eval_id = 0\<close> calls the environment factory once, with
  \<^verbatim>\<open>False\<close>, and runs on that environment; an evaluator with \<^verbatim>\<open>eval_id > 0\<close> calls it once,
  with \<^verbatim>\<open>True\<close>, and runs on that environment.
\<close>

theorem evaluator_environment:
  "(eval_id = 0 \<longrightarrow>
      environment_requests (fst (evaluator self v c eval_id)) = [False] \<and>
      eval_environment (snd (evaluator self v c eval_id)) = environment_factory self False) \<and>
   (eval_id > 0 \<longrightarrow>
      environment_requests (fst (evaluator self v c eval_id)) = [True] \<and>
      eval_environment (snd (evaluator self v c eval_id)) = environment_factory self True)"
  by (simp add: evaluator_def Let_def)

theorem evaluator_environment_witness:
  "environment_requests (fst (evaluator (defaults () 8 1) (Handle 2) (Handle 1) 0)) = [False] \<and>
   eval_environment (snd (evaluator (defaults () 8 1) (Handle 2) (Handle 1) 0)) = False \<and>
   environment_requests (fst (evaluator (defaults () 8 1) (Handle 2) (Handle 1) 3)) = [True] \<and>
   eval_environment (snd (evaluator (defaults () 8 1) (Handle 2) (Handle 1) 3)) = True"
  using evaluator_environment [of 0 "defaults () 8 1" "Handle 2" "Handle 1"]
        evaluator_environment [of 3 "defaults () 8 1" "Handle 2" "Handle 1"]
  by (simp add: defaults_def)

text \<open>
  C8. The priority function of the actor's adder for the default priority table is
  constant: whatever the item \<open>x\<close>, the priority computed for the table is
  \<^verbatim>\<open>default_priority\<close>, and the default priority table is the only table.
\<close>

theorem actor_priority_constant:
  "\<exists>f. priority_fns (loop_adder (snd (actor self r v c e))) DEFAULT_PRIORITY_TABLE = Some f \<and>
       (\<forall>x :: 'item. f x = default_priority self) \<and>
       (\<forall>x. calculate_priorities (priority_fns (loop_adder (snd (actor self r v c e)))) x
              = [DEFAULT_PRIORITY_TABLE \<mapsto> default_priority self])"
  by (auto simp: actor_def calculate_priorities_def Let_def)

theorem actor_priority_constant_witness:
  "\<exists>f. priority_fns (loop_adder (snd (actor (defaults () 8 1) (Handle 0) (Handle 4) (Handle 1)
            (4 / 10)))) ''priority_table'' = Some f \<and>
       f (7 :: int) = 4 \<and> f 8 = 4"
proof -
  have d: "default_priority (defaults () 8 1) = 4" by (simp add: defaults_def)
  from actor_priority_constant
         [of "defaults () 8 1" "Handle 0" "Handle 4" "Handle 1" "4 / 10", where 'item = int,
          unfolded d DEFAULT_PRIORITY_TABLE_def]
  obtain f :: "int \<Rightarrow> real" where
    "priority_fns (loop_adder (snd (actor (defaults () 8 1) (Handle 0) (Handle 4) (Handle 1)
        (4 / 10)))) ''priority_table'' = Some f"
    and "\<forall>x. f x = 4"
    by blast
  then show ?thesis by (intro exI[of _ f]) simp
qed

end
